theory Spec2Isabelle
  imports Main
begin

section \<open>Call-tree graphs: the Graph and Node classes of thicket\_new\<close>

text \<open>
  The development follows \<^verbatim>\<open>src/thicket_new/node.py\<close> and
  \<^verbatim>\<open>src/thicket_new/graph.py\<close>. Every method is a function that takes the
  object's state and returns the outcome together with the state the object is left in;
  an exception is the \<open>Inl\<close> branch of the outcome.
\<close>

subsection \<open>Exceptions\<close>

datatype error =
    TypeError
  | ValueError
  | AttributeError
  | KeyError
  | IndexError
  | OverflowError
  | DAGWouldCycle

subsection \<open>Node (node.py)\<close>

text \<open>
  A Node holds a frame, the id the graph gave it (\<^verbatim>\<open>_hatchet_nid\<close>, default \<open>-1\<close>) and a
  depth (default \<open>-1\<close>). The frame class is not part of the sources; it is a type
  parameter whose HOL equality is the frame's value equality.
\<close>

record 'f Node =
  frame :: 'f
  hatchet_nid :: int
  depth :: int

definition Node_init :: "'f \<Rightarrow> int \<Rightarrow> int \<Rightarrow> 'f Node" where
  "Node_init fr hnid d = \<lparr>frame = fr, hatchet_nid = hnid, depth = d\<rparr>"

text \<open>The methods \<^verbatim>\<open>__hash__\<close>, \<^verbatim>\<open>__eq__\<close>, \<^verbatim>\<open>__lt__\<close> and \<^verbatim>\<open>__gt__\<close> of Node.\<close>

definition Node_dunder_hash :: "'f Node \<Rightarrow> int" where
  "Node_dunder_hash self = hatchet_nid self"

definition Node_eq :: "'f Node \<Rightarrow> 'f Node \<Rightarrow> bool" where
  "Node_eq self other = (hatchet_nid self = hatchet_nid other)"

definition Node_lt :: "'f Node \<Rightarrow> 'f Node \<Rightarrow> bool" where
  "Node_lt self other = (hatchet_nid self < hatchet_nid other)"

definition Node_gt :: "'f Node \<Rightarrow> 'f Node \<Rightarrow> bool" where
  "Node_gt self other = (hatchet_nid self > hatchet_nid other)"

text \<open>
  The built-in \<^verbatim>\<open>hash\<close> of the runtime (CPython, on a 64-bit machine). The hash of an
  int is the int reduced modulo \<open>2^61 - 1\<close>, with its sign; \<open>-1\<close> is never a hash
  and becomes \<open>-2\<close>. The hash of an object whose class defines \<^verbatim>\<open>__hash__\<close> is the
  method's result when that fits the signed machine word and the hash of that int
  otherwise, again with \<open>-2\<close> for \<open>-1\<close>.
\<close>

definition int_hash :: "int \<Rightarrow> int" where
  "int_hash r =
     (let h = sgn r * (\<bar>r\<bar> mod (2 ^ 61 - 1)) in if h = - 1 then - 2 else h)"

definition Node_hash :: "'f Node \<Rightarrow> int" where
  "Node_hash self =
     (let res = Node_dunder_hash self;
          h = (if - (2 ^ 63) \<le> res \<and> res < 2 ^ 63 then res else int_hash res)
      in if h = - 1 then - 2 else h)"

subsection \<open>The storage library (rustworkx.PyDiGraph)\<close>

text \<open>
  The graph is stored in a \<^verbatim>\<open>PyDiGraph\<close> of the rustworkx library, which is not part
  of the repository. The state of the storage is a table of slots addressed by index (a
  removed vertex leaves its slot vacant) and the edges in the order of their insertion,
  with the two flags the constructor takes.
\<close>

record 'w PyDiGraph =
  check_cycle :: bool
  multigraph :: bool
  slots :: "'w option list"
  edges :: "(nat \<times> nat) list"

definition PyDiGraph_init :: "bool \<Rightarrow> bool \<Rightarrow> 'w PyDiGraph" where
  "PyDiGraph_init cc mg = \<lparr>check_cycle = cc, multigraph = mg, slots = [], edges = []\<rparr>"

definition has_node :: "'w PyDiGraph \<Rightarrow> nat \<Rightarrow> bool" where
  "has_node d i = (i < length (slots d) \<and> slots d ! i \<noteq> None)"

text \<open>
  A Python int used as an index: it converts when it fits the unsigned machine word
  (64 bits).
\<close>

definition to_usize :: "int \<Rightarrow> error + nat" where
  "to_usize i = (if i < 0 \<or> 2 ^ 64 \<le> i then Inl OverflowError else Inr (nat i))"

text \<open>\<^verbatim>\<open>dag[i] = w\<close> and \<^verbatim>\<open>dag[i]\<close>.\<close>

definition rx_setitem :: "'w PyDiGraph \<Rightarrow> int \<Rightarrow> 'w \<Rightarrow> error + 'w PyDiGraph" where
  "rx_setitem d i w =
     (case to_usize i of
        Inl e \<Rightarrow> Inl e
      | Inr n \<Rightarrow>
          if has_node d n then Inr (d\<lparr>slots := (slots d)[n := Some w]\<rparr>)
          else Inl IndexError)"

definition rx_getitem :: "'w PyDiGraph \<Rightarrow> int \<Rightarrow> error + 'w" where
  "rx_getitem d i =
     (case to_usize i of
        Inl e \<Rightarrow> Inl e
      | Inr n \<Rightarrow>
          (if n < length (slots d)
           then (case slots d ! n of None \<Rightarrow> Inl IndexError | Some w \<Rightarrow> Inr w)
           else Inl IndexError))"

text \<open>
  \<^verbatim>\<open>in_edges(i)\<close> and \<^verbatim>\<open>out_edges(i)\<close> list the edges into and out of a vertex, the
  newest first.
\<close>

definition rx_in_edges :: "'w PyDiGraph \<Rightarrow> int \<Rightarrow> error + (nat \<times> nat) list" where
  "rx_in_edges d i =
     (case to_usize i of
        Inl e \<Rightarrow> Inl e
      | Inr n \<Rightarrow> Inr (rev (filter (\<lambda>e. snd e = n) (edges d))))"

definition rx_out_edges :: "'w PyDiGraph \<Rightarrow> int \<Rightarrow> error + (nat \<times> nat) list" where
  "rx_out_edges d i =
     (case to_usize i of
        Inl e \<Rightarrow> Inl e
      | Inr n \<Rightarrow> Inr (rev (filter (\<lambda>e. fst e = n) (edges d))))"

definition rx_node_indices :: "'w PyDiGraph \<Rightarrow> nat list" where
  "rx_node_indices d = filter (has_node d) [0 ..< length (slots d)]"

definition rx_in_degree :: "'w PyDiGraph \<Rightarrow> nat \<Rightarrow> nat" where
  "rx_in_degree d n = length (filter (\<lambda>e. snd e = n) (edges d))"

definition rx_copy :: "'w PyDiGraph \<Rightarrow> 'w PyDiGraph" where
  "rx_copy d = d"

subsection \<open>What the sources leave to other code\<close>

text \<open>
  What the library does in \<^verbatim>\<open>add_node(obj)\<close>, \<^verbatim>\<open>add_parent(child, obj, edge)\<close>,
  \<^verbatim>\<open>add_edge(parent, child, edge)\<close>, \<^verbatim>\<open>merge_nodes(u, v)\<close> and in the depth-first search
  \<^verbatim>\<open>rx.digraph_dfs_search\<close>, what the frame's \<^verbatim>\<open>values\<close> and \<^verbatim>\<open>copy\<close> return, and the
  identity \<^verbatim>\<open>id\<close> the runtime gives an object are not in the repository: they are
  parameters of the model, and every theorem holds for all of them. The search is given
  by the sequence of callbacks it makes on the visitor, or by the exception it raises.
  A vertex's payload and an edge's weight are Python objects: \<^verbatim>\<open>None\<close> or a Node.
\<close>

datatype pyarg = PStr string | PNone | PNames "string list"

datatype dfs_event = Discover nat | Finish nat

record ('f, 'v) env =
  lib_add_node ::
    "'f Node option PyDiGraph \<Rightarrow> 'f Node option \<Rightarrow> nat \<times> 'f Node option PyDiGraph"
  lib_add_parent ::
    "'f Node option PyDiGraph \<Rightarrow> int \<Rightarrow> 'f Node option \<Rightarrow> 'f Node option
       \<Rightarrow> error + (nat \<times> 'f Node option PyDiGraph)"
  lib_add_edge ::
    "'f Node option PyDiGraph \<Rightarrow> int \<Rightarrow> int \<Rightarrow> 'f Node option
       \<Rightarrow> error + 'f Node option PyDiGraph"
  dfs_search :: "'f Node option PyDiGraph \<Rightarrow> int list \<Rightarrow> error + dfs_event list"
  rx_merge_nodes ::
    "'f Node option PyDiGraph \<Rightarrow> int \<Rightarrow> int \<Rightarrow> error + 'f Node option PyDiGraph"
  frame_values :: "'f \<Rightarrow> pyarg \<Rightarrow> 'v"
  frame_copy :: "'f \<Rightarrow> 'f"
  id_of_int :: "nat \<Rightarrow> int"
  id_of_node :: "'f Node \<Rightarrow> int"

text \<open>
  A call of one of the three inserting methods. The library declares every argument of
  \<^verbatim>\<open>add_node(obj)\<close>, \<^verbatim>\<open>add_parent(child, obj, edge)\<close> and
  \<^verbatim>\<open>add_edge(parent, child, edge)\<close> as required and positional: a call that passes
  fewer or more is a TypeError raised before the method runs. \<open>rest\<close> holds the
  arguments passed after the vertex indices.
\<close>

definition rx_add_node ::
  "('f, 'v) env \<Rightarrow> 'f Node option PyDiGraph \<Rightarrow> 'f Node option list
     \<Rightarrow> error + (nat \<times> 'f Node option PyDiGraph)" where
  "rx_add_node X d args =
     (case args of
        [obj] \<Rightarrow> Inr (lib_add_node X d obj)
      | _ \<Rightarrow> Inl TypeError)"

definition rx_add_parent ::
  "('f, 'v) env \<Rightarrow> 'f Node option PyDiGraph \<Rightarrow> int \<Rightarrow> 'f Node option list
     \<Rightarrow> error + (nat \<times> 'f Node option PyDiGraph)" where
  "rx_add_parent X d child rest =
     (case rest of
        [obj, edge] \<Rightarrow> lib_add_parent X d child obj edge
      | _ \<Rightarrow> Inl TypeError)"

definition rx_add_edge ::
  "('f, 'v) env \<Rightarrow> 'f Node option PyDiGraph \<Rightarrow> int \<Rightarrow> int \<Rightarrow> 'f Node option list
     \<Rightarrow> error + 'f Node option PyDiGraph" where
  "rx_add_edge X d parent child rest =
     (case rest of
        [edge] \<Rightarrow> lib_add_edge X d parent child edge
      | _ \<Rightarrow> Inl TypeError)"

subsection \<open>Graph: construction and mutation (graph.py, lines 44 to 136)\<close>

text \<open>\<open>roots\<close> is a Python set of ints.\<close>

record 'f Graph =
  dag :: "'f Node option PyDiGraph"
  roots :: "int set"

definition Graph_init :: "'f Graph" where
  "Graph_init = \<lparr>dag = PyDiGraph_init True False, roots = {}\<rparr>"

text \<open>
  A vertex reference as the methods receive it: an int, a Node, or a value of any other
  type. \<open>resolve\<close> is the \<^verbatim>\<open>isinstance\<close> chain every method starts with.
\<close>

datatype 'f vref = Id int | Handle "'f Node" | Other

fun resolve :: "'f vref \<Rightarrow> error + int" where
  "resolve (Id i) = Inr i"
| "resolve (Handle n) = Inr (hatchet_nid n)"
| "resolve Other = Inl TypeError"

text \<open>Line 50 calls \<^verbatim>\<open>self.dag.add_node()\<close>, with no argument.\<close>

definition add_node :: "('f, 'v) env \<Rightarrow> 'f Graph \<Rightarrow> 'f \<Rightarrow> (error + 'f Node) \<times> 'f Graph" where
  "add_node X g fr =
     (case rx_add_node X (dag g) [] of
        Inl e \<Rightarrow> (Inl e, g)
      | Inr (node_id, d1) \<Rightarrow>
          (let g1 = g\<lparr>dag := d1\<rparr>;
               node_obj = Node_init fr (int node_id) (- 1)
           in case rx_setitem d1 (int node_id) (Some node_obj) of
                Inl e \<Rightarrow> (Inl e, g1)
              | Inr d2 \<Rightarrow>
                  (Inr node_obj,
                   g1\<lparr>dag := d2, roots := insert (int node_id) (roots g1)\<rparr>)))"


text \<open>
  Line 82, in \<^verbatim>\<open>add_child\<close>, calls \<^verbatim>\<open>self.dag.add_parent(parent_id)\<close>: the library's
  \<^verbatim>\<open>add_parent\<close>, with the parent alone. \<open>roots\<close> is not touched.
\<close>

definition add_child ::
  "('f, 'v) env \<Rightarrow> 'f Graph \<Rightarrow> 'f vref \<Rightarrow> 'f \<Rightarrow> (error + 'f Node) \<times> 'f Graph" where
  "add_child X g parent child_frame =
     (case resolve parent of
        Inl e \<Rightarrow> (Inl e, g)
      | Inr parent_id \<Rightarrow>
          (case rx_add_parent X (dag g) parent_id [] of
             Inl e \<Rightarrow> (Inl e, g)
           | Inr (child_id, d1) \<Rightarrow>
               (let g1 = g\<lparr>dag := d1\<rparr>;
                    child_node = Node_init child_frame (int child_id) (- 1)
                in case rx_setitem d1 (int child_id) (Some child_node) of
                     Inl e \<Rightarrow> (Inl e, g1)
                   | Inr d2 \<Rightarrow> (Inr child_node, g1\<lparr>dag := d2\<rparr>))))"

text \<open>Line 104 calls \<^verbatim>\<open>self.dag.add_edge(parent_id, child_id)\<close>, with no weight.\<close>

definition add_edge ::
  "('f, 'v) env \<Rightarrow> 'f Graph \<Rightarrow> 'f vref \<Rightarrow> 'f vref \<Rightarrow> (error + unit) \<times> 'f Graph" where
  "add_edge X g parent child =
     (case resolve parent of
        Inl e \<Rightarrow> (Inl e, g)
      | Inr parent_id \<Rightarrow>
          (case resolve child of
             Inl e \<Rightarrow> (Inl e, g)
           | Inr child_id \<Rightarrow>
               (case rx_add_edge X (dag g) parent_id child_id [] of
                  Inl e \<Rightarrow> (Inl e, g)
                | Inr d1 \<Rightarrow> (Inr (), g\<lparr>dag := d1, roots := roots g - {child_id}\<rparr>))))"

text \<open>\<^verbatim>\<open>self.dag[i]\<close> for each index of a list, stopping at the first failure.\<close>

fun getitems :: "'w PyDiGraph \<Rightarrow> nat list \<Rightarrow> error + 'w list" where
  "getitems d [] = Inr []"
| "getitems d (i # is) =
     (case rx_getitem d (int i) of
        Inl e \<Rightarrow> Inl e
      | Inr w \<Rightarrow> (case getitems d is of Inl e \<Rightarrow> Inl e | Inr ws \<Rightarrow> Inr (w # ws)))"

definition get_parents :: "'f Graph \<Rightarrow> 'f vref \<Rightarrow> error + 'f Node option list" where
  "get_parents g child =
     (case resolve child of
        Inl e \<Rightarrow> Inl e
      | Inr child_id \<Rightarrow>
          (case rx_in_edges (dag g) child_id of
             Inl e \<Rightarrow> Inl e
           | Inr es \<Rightarrow> getitems (dag g) (map fst es)))"

definition get_children :: "'f Graph \<Rightarrow> 'f vref \<Rightarrow> error + 'f Node option list" where
  "get_children g parent =
     (case resolve parent of
        Inl e \<Rightarrow> Inl e
      | Inr parent_id \<Rightarrow>
          (case rx_out_edges (dag g) parent_id of
             Inl e \<Rightarrow> Inl e
           | Inr es \<Rightarrow> getitems (dag g) (map snd es)))"


text \<open>
  The vertices without an incoming edge (\<^verbatim>\<open>update_roots\<close>, lines 215 to 218, stores
  this set in \<open>roots\<close>), and reachability along the edges: \<open>reaches d a b\<close> when \<open>b\<close>
  can be reached from \<open>a\<close>.
\<close>

definition zero_in_degree :: "'f Graph \<Rightarrow> int set" where
  "zero_in_degree g =
     int ` set (filter (\<lambda>n. rx_in_degree (dag g) n = 0) (rx_node_indices (dag g)))"

definition update_roots :: "'f Graph \<Rightarrow> 'f Graph" where
  "update_roots g = g\<lparr>roots := zero_in_degree g\<rparr>"

definition reaches :: "'w PyDiGraph \<Rightarrow> nat \<Rightarrow> nat \<Rightarrow> bool" where
  "reaches d a b = (a = b \<or> (a, b) \<in> (set (edges d))\<^sup>+)"

subsection \<open>The visitor (graph.py, lines 22 to 41)\<close>

record GraphDFSVistor =
  node_ids :: "nat list"
  order :: pyarg
  visited :: "(int \<times> nat) list"

text \<open>
  The body of \<^verbatim>\<open>__init__(self, order)\<close>: an order other than \<^verbatim>\<open>"pre"\<close> and
  \<^verbatim>\<open>"post"\<close> raises ValueError.
\<close>

definition GraphDFSVistor_init :: "pyarg \<Rightarrow> error + GraphDFSVistor" where
  "GraphDFSVistor_init ord =
     (if ord \<notin> {PStr ''pre'', PStr ''post''} then Inl ValueError
      else Inr \<lparr>node_ids = [], order = ord, visited = []\<rparr>)"

text \<open>
  Instantiating the class with a list of positional arguments: \<^verbatim>\<open>__init__\<close> has the one
  parameter \<open>order\<close> beside \<open>self\<close> and no default, so any other number of arguments is a
  TypeError raised before the body runs.
\<close>

definition GraphDFSVistor_new :: "pyarg list \<Rightarrow> error + GraphDFSVistor" where
  "GraphDFSVistor_new args =
     (case args of
        [ord] \<Rightarrow> GraphDFSVistor_init ord
      | _ \<Rightarrow> Inl TypeError)"

text \<open>The visit table is a dict from \<^verbatim>\<open>id(vertex)\<close> to a count.\<close>

fun count_visit :: "(int \<times> nat) list \<Rightarrow> int \<Rightarrow> (int \<times> nat) list" where
  "count_visit [] key = [(key, 1)]"
| "count_visit ((k, c) # kcs) key =
     (if k = key then (k, c + 1) # kcs else (k, c) # count_visit kcs key)"

definition discover_vertex ::
  "('f, 'v) env \<Rightarrow> GraphDFSVistor \<Rightarrow> nat \<Rightarrow> GraphDFSVistor" where
  "discover_vertex X self vertex =
     (let self1 = (if order self = PStr ''pre''
                   then self\<lparr>node_ids := node_ids self @ [vertex]\<rparr> else self);
          key = id_of_int X vertex
      in self1\<lparr>visited := count_visit (visited self1) key\<rparr>)"

definition finish_vertex :: "GraphDFSVistor \<Rightarrow> nat \<Rightarrow> GraphDFSVistor" where
  "finish_vertex self vertex =
     (if order self = PStr ''post''
      then self\<lparr>node_ids := node_ids self @ [vertex]\<rparr> else self)"

fun visit :: "('f, 'v) env \<Rightarrow> dfs_event \<Rightarrow> GraphDFSVistor \<Rightarrow> GraphDFSVistor" where
  "visit X (Discover v) self = discover_vertex X self v"
| "visit X (Finish v) self = finish_vertex self v"

subsection \<open>Traversal (graph.py, lines 138 to 156)\<close>

text \<open>
  \<^verbatim>\<open>traverse\<close> is a generator. Draining it gives the items it yielded, the exception
  that ended it (if one did), and the state of the table the caller passed as
  \<open>visited\<close>. An item is the vertex's payload when \<open>attrs\<close> is \<^verbatim>\<open>None\<close>, and the
  frame's selected values otherwise.
\<close>

datatype ('f, 'v) item = Whole "'f Node option" | Values 'v

definition get_attrs :: "('f, 'v) env \<Rightarrow> pyarg \<Rightarrow> 'f Node option \<Rightarrow> error + ('f, 'v) item" where
  "get_attrs X attrs node =
     (if attrs = PNone then Inr (Whole node)
      else (case node of
              None \<Rightarrow> Inl AttributeError
            | Some n \<Rightarrow> Inr (Values (frame_values X (frame n) attrs))))"

fun yield_nodes ::
  "('f, 'v) env \<Rightarrow> 'f Node option PyDiGraph \<Rightarrow> pyarg \<Rightarrow> nat list
     \<Rightarrow> ('f, 'v) item list \<times> error option" where
  "yield_nodes X d attrs [] = ([], None)"
| "yield_nodes X d attrs (node_id # rest) =
     (case rx_getitem d (int node_id) of
        Inl e \<Rightarrow> ([], Some e)
      | Inr w \<Rightarrow>
          (case get_attrs X attrs w of
             Inl e \<Rightarrow> ([], Some e)
           | Inr it \<Rightarrow>
               (case yield_nodes X d attrs rest of (ys, err) \<Rightarrow> (it # ys, err))))"

text \<open>
  The part of \<^verbatim>\<open>traverse\<close> after the visitor is built (lines 143 to 149). Line 147
  assigns the visitor's table to the local name \<open>visited\<close>; the caller's table is not
  written.
\<close>

definition traverse_body ::
  "('f, 'v) env \<Rightarrow> 'f Graph \<Rightarrow> GraphDFSVistor \<Rightarrow> pyarg \<Rightarrow> (int \<times> nat) list option
     \<Rightarrow> ('f, 'v) item list \<times> error option \<times> (int \<times> nat) list option" where
  "traverse_body X g dfs_visitor attrs caller_visited =
     (let rs = sorted_list_of_set (roots g) in
      case dfs_search X (dag g) rs of
        Inl e \<Rightarrow> ([], Some e, caller_visited)
      | Inr events \<Rightarrow>
          (let dfs_visitor1 = fold (visit X) events dfs_visitor;
               visited_local = (if caller_visited \<noteq> None
                                then Some (visited dfs_visitor1) else caller_visited)
           in case yield_nodes X (dag g) attrs (node_ids dfs_visitor1) of
                (ys, err) \<Rightarrow> (ys, err, caller_visited)))"

text \<open>Line 142 builds the visitor with the two arguments \<open>order\<close> and \<open>attrs\<close>.\<close>

definition traverse ::
  "('f, 'v) env \<Rightarrow> 'f Graph \<Rightarrow> pyarg \<Rightarrow> pyarg \<Rightarrow> (int \<times> nat) list option
     \<Rightarrow> ('f, 'v) item list \<times> error option \<times> (int \<times> nat) list option" where
  "traverse X g ord attrs caller_visited =
     (case GraphDFSVistor_new [ord, attrs] of
        Inl e \<Rightarrow> ([], Some e, caller_visited)
      | Inr dfs_visitor \<Rightarrow> traverse_body X g dfs_visitor attrs caller_visited)"

definition is_tree :: "('f, 'v) env \<Rightarrow> 'f Graph \<Rightarrow> error + bool" where
  "is_tree X g =
     (if card (roots g) > 1 then Inr False
      else (case traverse X g (PStr ''pre'') PNone (Some []) of
              (ys, Some e, tab) \<Rightarrow> Inl e
            | (ys, None, tab) \<Rightarrow>
                Inr (list_all (\<lambda>kc. snd kc = 1) (case tab of None \<Rightarrow> [] | Some t \<Rightarrow> t))))"

subsection \<open>Merge detection (graph.py, lines 10 to 19 and 158 to 213)\<close>

text \<open>
  The objects that reach \<^verbatim>\<open>index_by\<close>: \<^verbatim>\<open>find_merges\<close> passes \<open>self.roots\<close>, a set
  of ints, and later lists of vertex payloads.
\<close>

datatype 'f pyobj = PInt int | PNode "'f Node" | PNothing

fun of_payload :: "'f Node option \<Rightarrow> 'f pyobj" where
  "of_payload None = PNothing"
| "of_payload (Some n) = PNode n"

text \<open>
  \<^verbatim>\<open>index_by("frame", objects)\<close>: a dict from frame to the list of objects with that
  frame, in the order met. \<^verbatim>\<open>getattr(obj, "frame")\<close> raises AttributeError on an object
  that is not a Node.
\<close>

fun index_add :: "('f \<times> 'f Node list) list \<Rightarrow> 'f \<Rightarrow> 'f Node \<Rightarrow> ('f \<times> 'f Node list) list" where
  "index_add [] fr obj = [(fr, [obj])]"
| "index_add ((k, objs) # rest) fr obj =
     (if k = fr then (k, objs @ [obj]) # rest else (k, objs) # index_add rest fr obj)"

fun index_by_frame ::
  "('f \<times> 'f Node list) list \<Rightarrow> 'f pyobj list \<Rightarrow> error + ('f \<times> 'f Node list) list" where
  "index_by_frame index [] = Inr index"
| "index_by_frame index (PNode n # objs) = index_by_frame (index_add index (frame n) n) objs"
| "index_by_frame index (PInt i # objs) = Inl AttributeError"
| "index_by_frame index (PNothing # objs) = Inl AttributeError"

text \<open>
  A dict keyed by Nodes finds a key with \<^verbatim>\<open>__hash__\<close> and \<^verbatim>\<open>__eq__\<close> of Node; an
  assignment to a key that is there keeps the key and replaces the value.
\<close>

fun dict_get :: "('f Node \<times> 'a) list \<Rightarrow> 'f Node \<Rightarrow> 'a option" where
  "dict_get [] k = None"
| "dict_get ((k', v) # kvs) k =
     (if Node_hash k' = Node_hash k \<and> Node_eq k' k then Some v else dict_get kvs k)"

fun dict_set :: "('f Node \<times> 'a) list \<Rightarrow> 'f Node \<Rightarrow> 'a \<Rightarrow> ('f Node \<times> 'a) list" where
  "dict_set [] k v = [(k, v)]"
| "dict_set ((k', v') # kvs) k v =
     (if Node_hash k' = Node_hash k \<and> Node_eq k' k then (k', v) # kvs
      else (k', v') # dict_set kvs k v)"

text \<open>
  \<open>inverted_merges\<close> is a \<^verbatim>\<open>defaultdict\<close> of lists: reading a missing key stores an
  empty list under it.
\<close>

definition dd_touch :: "('f Node \<times> 'f Node list) list \<Rightarrow> 'f Node \<Rightarrow> ('f Node \<times> 'f Node list) list" where
  "dd_touch inverted k = (case dict_get inverted k of None \<Rightarrow> dict_set inverted k [] | Some xs \<Rightarrow> inverted)"

definition dd_read :: "('f Node \<times> 'f Node list) list \<Rightarrow> 'f Node \<Rightarrow> 'f Node list" where
  "dd_read inverted k = (case dict_get inverted k of None \<Rightarrow> [] | Some xs \<Rightarrow> xs)"

definition dd_append ::
  "('f Node \<times> 'f Node list) list \<Rightarrow> 'f Node \<Rightarrow> 'f Node \<Rightarrow> ('f Node \<times> 'f Node list) list" where
  "dd_append inverted k x = dict_set inverted k (dd_read inverted k @ [x])"

text \<open>\<^verbatim>\<open>min(m # xs, key=key)\<close>: the first element whose key is least.\<close>

fun min_from :: "('a \<Rightarrow> int) \<Rightarrow> 'a \<Rightarrow> 'a list \<Rightarrow> 'a" where
  "min_from key m [] = m"
| "min_from key m (x # xs) = min_from key (if key x < key m then x else m) xs"

text \<open>
  The state of \<^verbatim>\<open>find_merges\<close> that \<^verbatim>\<open>_find_child_merges\<close> writes: \<open>merges\<close> and
  \<open>inverted_merges\<close>. \<open>idf\<close> is \<^verbatim>\<open>id\<close> on Nodes. Lines 180 to 189 are \<open>child_merge\<close>,
  lines 178 to 189 \<open>group_merge\<close>.
\<close>

type_synonym 'f merge_state =
  "('f Node \<times> 'f Node) list \<times> ('f Node \<times> 'f Node list) list"

definition child_merge ::
  "('f Node \<Rightarrow> int) \<Rightarrow> 'f Node \<Rightarrow> 'f Node \<Rightarrow> 'f merge_state \<Rightarrow> 'f merge_state" where
  "child_merge idf min_id child st =
     (case st of
        (merges, inverted) \<Rightarrow>
          (let prev_min = (case dict_get merges child of None \<Rightarrow> min_id | Some m \<Rightarrow> m);
               curr_min = min_from idf min_id [prev_min]
           in (dict_set merges child curr_min, dd_append inverted curr_min child)))"

definition group_merge ::
  "('f Node \<Rightarrow> int) \<Rightarrow> 'f \<times> 'f Node list \<Rightarrow> 'f merge_state \<Rightarrow> 'f merge_state" where
  "group_merge idf grp st =
     (case grp of
        (fr, children) \<Rightarrow>
          (if length children > 1
           then (let min_id = min_from idf (hd children) (tl children)
                 in fold (child_merge idf min_id) children st)
           else st))"

definition find_child_merges ::
  "('f Node \<Rightarrow> int) \<Rightarrow> 'f merge_state \<Rightarrow> 'f pyobj list \<Rightarrow> error + 'f merge_state" where
  "find_child_merges idf st node_list =
     (case index_by_frame [] node_list of
        Inl e \<Rightarrow> Inl e
      | Inr index \<Rightarrow> Inr (fold (group_merge idf) index st))"

text \<open>
  The children of each Node of a list, in one list (lines 203 and 204).
\<close>

fun children_of_all :: "'f Graph \<Rightarrow> 'f Node list \<Rightarrow> error + 'f Node option list" where
  "children_of_all g [] = Inr []"
| "children_of_all g (n # ns) =
     (case get_children g (Handle n) of
        Inl e \<Rightarrow> Inl e
      | Inr cs \<Rightarrow>
          (case children_of_all g ns of Inl e \<Rightarrow> Inl e | Inr ds \<Rightarrow> Inr (cs @ ds)))"

text \<open>
  The body of the loop over the traversal (lines 193 to 211), on the state \<open>merges\<close>,
  \<open>inverted_merges\<close>, \<open>processed\<close>. An item that is not a Node raises where the loop
  first treats it as one: in the comparison with a processed Node, or, with nothing
  processed yet, in \<^verbatim>\<open>get_children\<close>.
\<close>

definition merge_step ::
  "('f, 'v) env \<Rightarrow> 'f Graph \<Rightarrow> ('f, 'v) item
     \<Rightarrow> 'f merge_state \<times> 'f Node list \<Rightarrow> error + ('f merge_state \<times> 'f Node list)" where
  "merge_step X g it st =
     (case st of
        ((merges, inverted), processed) \<Rightarrow>
          (case it of
             Whole (Some node) \<Rightarrow>
               (if list_ex (\<lambda>p. Node_eq p node) processed then Inr st
                else (case dict_get merges node of
                        Some new_node \<Rightarrow>
                          (let inverted1 = dd_touch inverted new_node;
                               folded = dd_read inverted1 new_node
                           in case children_of_all g folded of
                                Inl e \<Rightarrow> Inl e
                              | Inr nodes \<Rightarrow>
                                  (case find_child_merges (id_of_node X) (merges, inverted1)
                                          (map of_payload nodes) of
                                     Inl e \<Rightarrow> Inl e
                                   | Inr st1 \<Rightarrow> Inr (st1, processed @ folded)))
                      | None \<Rightarrow>
                          (case get_children g (Handle node) of
                             Inl e \<Rightarrow> Inl e
                           | Inr nodes \<Rightarrow>
                               (case find_child_merges (id_of_node X) (merges, inverted)
                                       (map of_payload nodes) of
                                  Inl e \<Rightarrow> Inl e
                                | Inr st1 \<Rightarrow> Inr (st1, processed @ [node])))))
           | _ \<Rightarrow> Inl (if processed = [] then TypeError else AttributeError)))"

fun merge_loop ::
  "('f, 'v) env \<Rightarrow> 'f Graph \<Rightarrow> ('f, 'v) item list
     \<Rightarrow> 'f merge_state \<times> 'f Node list \<Rightarrow> error + ('f merge_state \<times> 'f Node list)" where
  "merge_loop X g [] st = Inr st"
| "merge_loop X g (it # its) st =
     (case merge_step X g it st of
        Inl e \<Rightarrow> Inl e
      | Inr st1 \<Rightarrow> merge_loop X g its st1)"

text \<open>
  \<^verbatim>\<open>find_merges\<close>. Line 191 passes the set \<open>self.roots\<close>; the order in which a set of
  ints is iterated is the runtime's, and the ascending one stands for it here (the
  outcome of line 191 is the same for every order). The loop handles the items the
  traversal yields, and the exception that ends the traversal comes after them.
\<close>

definition find_merges :: "('f, 'v) env \<Rightarrow> 'f Graph \<Rightarrow> error + ('f Node \<times> 'f Node) list" where
  "find_merges X g =
     (case find_child_merges (id_of_node X) ([], [])
             (map PInt (sorted_list_of_set (roots g))) of
        Inl e \<Rightarrow> Inl e
      | Inr st \<Rightarrow>
          (case traverse X g (PStr ''pre'') PNone None of
             (ys, err, tab) \<Rightarrow>
               (case merge_loop X g ys (st, []) of
                  Inl e \<Rightarrow> Inl e
                | Inr ((merges, inverted), processed) \<Rightarrow>
                    (case err of Some e \<Rightarrow> Inl e | None \<Rightarrow> Inr merges))))"

subsection \<open>Merge application and normalize (graph.py, lines 215 to 238)\<close>

fun merge_all ::
  "('f, 'v) env \<Rightarrow> 'f Node option PyDiGraph \<Rightarrow> ('f Node \<times> 'f Node) list
     \<Rightarrow> error option \<times> 'f Node option PyDiGraph" where
  "merge_all X d [] = (None, d)"
| "merge_all X d ((old, new) # ms) =
     (case rx_merge_nodes X d (hatchet_nid old) (hatchet_nid new) of
        Inl e \<Rightarrow> (Some e, d)
      | Inr d1 \<Rightarrow> merge_all X d1 ms)"

definition merge_nodes ::
  "('f, 'v) env \<Rightarrow> 'f Graph \<Rightarrow> ('f Node \<times> 'f Node) list \<Rightarrow> (error + unit) \<times> 'f Graph" where
  "merge_nodes X g merges =
     (case merge_all X (dag g) merges of
        (Some e, d1) \<Rightarrow> (Inl e, g\<lparr>dag := d1\<rparr>)
      | (None, d1) \<Rightarrow> (Inr (), update_roots (g\<lparr>dag := d1\<rparr>)))"

definition normalize ::
  "('f, 'v) env \<Rightarrow> 'f Graph \<Rightarrow> (error + ('f Node \<times> 'f Node) list) \<times> 'f Graph" where
  "normalize X g =
     (case find_merges X g of
        Inl e \<Rightarrow> (Inl e, g)
      | Inr merges \<Rightarrow>
          (case merge_nodes X g merges of
             (Inl e, g1) \<Rightarrow> (Inl e, g1)
           | (Inr u, g1) \<Rightarrow> (Inr merges, g1)))"

subsection \<open>Copy (node.py, lines 26 to 28; graph.py, lines 240 to 253)\<close>

text \<open>
  A call of the Node class with keyword arguments only. \<^verbatim>\<open>__init__\<close> has the parameters
  \<open>frame\<close>, \<open>hnid\<close> and \<open>depth\<close>, the first without a default: a keyword that names
  none of them, or a call that leaves \<open>frame\<close> unbound, is a TypeError. (The one such
  call in the sources passes a frame.)
\<close>

definition Node_params :: "string list" where
  "Node_params = [''frame'', ''hnid'', ''depth'']"

definition Node_new_kw :: "(string \<times> 'f) list \<Rightarrow> error + 'f Node" where
  "Node_new_kw kws =
     (if list_ex (\<lambda>kw. fst kw \<notin> set Node_params) kws then Inl TypeError
      else (case map_of kws ''frame'' of
              None \<Rightarrow> Inl TypeError
            | Some fr \<Rightarrow> Inr (Node_init fr (- 1) (- 1))))"

definition Node_copy :: "('f, 'v) env \<Rightarrow> 'f Node \<Rightarrow> error + 'f Node" where
  "Node_copy X self = Node_new_kw [(''frame_obj'', frame_copy X (frame self))]"

text \<open>
  The names a Graph object has: the two attributes \<^verbatim>\<open>__init__\<close> sets and the methods of
  the class. Calling a method under any other name is an AttributeError.
\<close>

definition Graph_names :: "string list" where
  "Graph_names =
     [''dag'', ''roots'', ''add_node'', ''add_parent'', ''add_child'', ''add_edge'',
      ''get_parents'', ''get_children'', ''traverse'', ''is_tree'', ''find_merges'',
      ''update_roots'', ''merge_nodes'', ''normalize'', ''copy'', ''union'']"

definition Graph_enumerate_traverse :: "'f Graph \<Rightarrow> error + unit" where
  "Graph_enumerate_traverse g =
     (if ''enumerate_traverse'' \<in> set Graph_names then Inr () else Inl AttributeError)"

text \<open>
  \<open>old_to_new\<close> is a dict keyed by the old payloads. One round of the loop of lines 244
  to 248, on the new storage and the dict:
\<close>

type_synonym 'f node_map = "('f Node option \<times> 'f Node) list"

fun map_set :: "'f node_map \<Rightarrow> 'f Node option \<Rightarrow> 'f Node \<Rightarrow> 'f node_map" where
  "map_set [] k v = [(k, v)]"
| "map_set ((k', v') # kvs) k v =
     (if (case (k', k) of
            (Some a, Some b) \<Rightarrow> Node_hash a = Node_hash b \<and> Node_eq a b
          | (None, None) \<Rightarrow> True
          | _ \<Rightarrow> False)
      then (k', v) # kvs
      else (k', v') # map_set kvs k v)"

definition copy_step ::
  "('f, 'v) env \<Rightarrow> 'f Node option PyDiGraph \<Rightarrow> nat \<times> nat
     \<Rightarrow> 'f Node option PyDiGraph \<times> 'f node_map
     \<Rightarrow> error + ('f Node option PyDiGraph \<times> 'f node_map)" where
  "copy_step X d idx st =
     (case (idx, st) of
        ((old_idx, new_idx), (new_dag, old_to_new)) \<Rightarrow>
          (case rx_getitem d (int old_idx) of
             Inl e \<Rightarrow> Inl e
           | Inr old_node \<Rightarrow>
               (case rx_getitem new_dag (int new_idx) of
                  Inl e \<Rightarrow> Inl e
                | Inr None \<Rightarrow> Inl AttributeError
                | Inr (Some n) \<Rightarrow>
                    (case Node_copy X n of
                       Inl e \<Rightarrow> Inl e
                     | Inr new_node \<Rightarrow>
                         (case rx_setitem new_dag (int new_idx) (Some new_node) of
                            Inl e \<Rightarrow> Inl e
                          | Inr new_dag1 \<Rightarrow>
                              Inr (new_dag1, map_set old_to_new old_node new_node))))))"

fun copy_loop ::
  "('f, 'v) env \<Rightarrow> 'f Node option PyDiGraph \<Rightarrow> (nat \<times> nat) list
     \<Rightarrow> 'f Node option PyDiGraph \<times> 'f node_map
     \<Rightarrow> error option \<times> 'f Node option PyDiGraph \<times> 'f node_map" where
  "copy_loop X d [] st = (None, st)"
| "copy_loop X d (idx # idxs) st =
     (case copy_step X d idx st of
        Inl e \<Rightarrow> (Some e, st)
      | Inr st1 \<Rightarrow> copy_loop X d idxs st1)"

text \<open>
  Line 251 looks each root id up in \<open>old_to_new\<close>. The keys are Nodes and the root is
  an int: a key with the root's hash is compared with it by \<^verbatim>\<open>Node.__eq__\<close>, which
  reads \<^verbatim>\<open>_hatchet_nid\<close> of the int (AttributeError); with no such key the lookup is a
  KeyError. Only an empty \<open>roots\<close> passes.
\<close>

definition translate_roots :: "'f node_map \<Rightarrow> int list \<Rightarrow> error + int set" where
  "translate_roots old_to_new rs =
     (case rs of
        [] \<Rightarrow> Inr {}
      | r # rest \<Rightarrow>
          Inl (if list_ex (\<lambda>kv. case fst kv of None \<Rightarrow> False
                                          | Some k \<Rightarrow> Node_hash k = int_hash r)
                    old_to_new
               then AttributeError else KeyError))"

text \<open>
  \<^verbatim>\<open>copy\<close> returns the new Graph alone; the mapping reaches the caller only through a
  dict passed as \<open>old_to_new\<close>. The outcome comes with the state of that dict.
\<close>

definition copy :: "('f, 'v) env \<Rightarrow> 'f Graph \<Rightarrow> 'f node_map option \<Rightarrow> (error + 'f Graph) \<times> 'f node_map" where
  "copy X g old_to_new_arg =
     (let old_to_new = (case old_to_new_arg of None \<Rightarrow> [] | Some m \<Rightarrow> m);
          new_dag = rx_copy (dag g)
      in case copy_loop X (dag g) (zip (rx_node_indices (dag g)) (rx_node_indices new_dag))
                (new_dag, old_to_new) of
           (Some e, new_dag1, old_to_new1) \<Rightarrow> (Inl e, old_to_new1)
         | (None, new_dag1, old_to_new1) \<Rightarrow>
             (case translate_roots old_to_new1 (sorted_list_of_set (roots g)) of
                Inl e \<Rightarrow> (Inl e, old_to_new1)
              | Inr rs \<Rightarrow>
                  (let graph = Graph_init\<lparr>dag := new_dag1, roots := rs\<rparr>
                   in case Graph_enumerate_traverse graph of
                        Inl e \<Rightarrow> (Inl e, old_to_new1)
                      | Inr u \<Rightarrow> (Inr graph, old_to_new1))))"

section \<open>Properties\<close>

subsection \<open>Node comparison\<close>

lemma dict_key_match:
  "(Node_hash k' = Node_hash k \<and> Node_eq k' k) = (hatchet_nid k' = hatchet_nid k)"
  by (auto simp: Node_hash_def Node_dunder_hash_def Node_eq_def)

text \<open>
  Claim C10. Equality, hashing and ordering of Nodes read the graph-assigned id only:
  \<^verbatim>\<open>a == b\<close> exactly when the ids are equal, \<^verbatim>\<open>hash(a)\<close> is the id, and \<^verbatim>\<open>a < b\<close>
  exactly when the id is smaller. The code at the Node with the constructor's default id
  \<open>-1\<close>: its hash is \<open>-2\<close>; and at the id \<open>2^63\<close> the hash is 4.
\<close>

theorem Node_hash_of_default_id:
  "hatchet_nid (Node_init ''main'' (- 1) (- 1)) = - 1
   \<and> Node_hash (Node_init ''main'' (- 1) (- 1)) = - 2
   \<and> Node_hash (Node_init ''main'' (2 ^ 63) (- 1)) = 4"
  by (simp add: Node_hash_def Node_dunder_hash_def Node_init_def int_hash_def)

text \<open>
  Claim C10 as the code has it. Two Nodes are equal exactly when their ids are equal,
  whatever their frames and depths, and one is less than the other exactly when its id
  is smaller; \<^verbatim>\<open>__hash__\<close> returns the id, and \<^verbatim>\<open>hash(a)\<close> is the id for every id of
  the signed 64-bit range other than \<open>-1\<close>.
\<close>

theorem Node_compare_by_id:
  "Node_eq (Node_init f1 i d1) (Node_init f2 j d2) = (i = j)
   \<and> Node_lt (Node_init f1 i d1) (Node_init f2 j d2) = (i < j)
   \<and> Node_eq a b = (hatchet_nid a = hatchet_nid b)
   \<and> Node_lt a b = (hatchet_nid a < hatchet_nid b)
   \<and> Node_dunder_hash a = hatchet_nid a
   \<and> (- (2 ^ 63) \<le> hatchet_nid a \<and> hatchet_nid a < 2 ^ 63 \<and> hatchet_nid a \<noteq> - 1
        \<longrightarrow> Node_hash a = hatchet_nid a)"
  by (simp add: Node_eq_def Node_hash_def Node_dunder_hash_def Node_lt_def Node_init_def)

theorem Node_compare_by_id_witness:
  "(- (2 ^ 63) \<le> hatchet_nid (Node_init ''main'' 7 (- 1))
      \<and> hatchet_nid (Node_init ''main'' 7 (- 1)) < 2 ^ 63
      \<and> hatchet_nid (Node_init ''main'' 7 (- 1)) \<noteq> - 1)
   \<and> Node_hash (Node_init ''main'' 7 (- 1)) = 7
   \<and> Node_eq (Node_init ''main'' 7 (- 1)) (Node_init ''foo'' 7 3)
   \<and> Node_lt (Node_init ''main'' 7 (- 1)) (Node_init ''main'' 8 (- 1))"
proof -
  have h: "- (2 ^ 63) \<le> hatchet_nid (Node_init ''main'' 7 (- 1))
      \<and> hatchet_nid (Node_init ''main'' 7 (- 1)) < 2 ^ 63
      \<and> hatchet_nid (Node_init ''main'' 7 (- 1)) \<noteq> - 1"
    by (simp add: Node_init_def)
  have n: "hatchet_nid (Node_init ''main'' 7 (- 1)) = 7"
    by (simp add: Node_init_def)
  from Node_compare_by_id[of "''main''" 7 "- 1" "''foo''" 7 3 "Node_init ''main'' 7 (- 1)"
      "Node_init ''main'' 8 (- 1)"] h n
  show ?thesis by (simp add: Node_init_def)
qed

subsection \<open>The mutators\<close>

text \<open>
  Each of the four mutators calls the storage with fewer arguments than the library
  requires (lines 50, 65, 82 and 104): the call is a TypeError, raised before anything is
  stored and before \<open>roots\<close> is touched. A reference that is neither an int nor a Node is
  a TypeError of the method itself. A graph built through the mutators is the fresh one.
\<close>

lemma add_node_raises: "add_node X g fr = (Inl TypeError, g)"
  by (simp add: add_node_def rx_add_node_def)


lemma add_child_raises: "add_child X g r fr = (Inl TypeError, g)"
  by (cases r) (simp_all add: add_child_def rx_add_parent_def)

lemma add_edge_raises: "add_edge X g r1 r2 = (Inl TypeError, g)"
  by (cases r1; cases r2) (simp_all add: add_edge_def rx_add_edge_def)


lemma fresh_roots: "roots (Graph_init :: 'f Graph) = {}"
  by (simp add: Graph_init_def)




text \<open>
  Claim C2. For an existing vertex \<open>p\<close>, \<^verbatim>\<open>add_child(p, child_frame)\<close> creates one vertex
  for the frame, adds the edge from \<open>p\<close> to it, keeps it out of \<open>roots\<close>, leaves
  \<open>p\<close>'s membership alone and returns the new Node. The code raises TypeError on every
  call and changes nothing; so it does on a graph whose storage holds the vertex 0.
\<close>

theorem add_child_raises_type_error:
  "add_child X g r fr = (Inl TypeError, g)
   \<and> (let g0 = \<lparr>dag = \<lparr>check_cycle = True, multigraph = False,
                        slots = [Some (Some (Node_init main 0 (- 1)))], edges = []\<rparr>,
                 roots = {0}\<rparr>
      in has_node (dag g0) 0 \<and> add_child X g0 (Id 0) fr = (Inl TypeError, g0))"
  by (simp add: add_child_raises has_node_def Let_def)

subsection \<open>Edge insertion and cycles\<close>

text \<open>
  Claim C6. For existing vertices \<open>u\<close> and \<open>v\<close> with \<open>u\<close> reachable from \<open>v\<close>,
  \<^verbatim>\<open>add_edge(u, v)\<close> raises the cycle error and leaves the graph as it was. The code
  leaves the graph as it was, but the error is the TypeError of the call at line 104, on
  every call: the library's cycle check is never reached. So it is on the graph whose
  storage holds the vertices 0 and 1 and the edge from 1 to 0, at \<^verbatim>\<open>add_edge(0, 1)\<close>.
\<close>

theorem add_edge_raises_type_error:
  "add_edge X g r1 r2 = (Inl TypeError, g)
   \<and> fst (add_edge X g r1 r2) \<noteq> Inl DAGWouldCycle
   \<and> (let g0 = \<lparr>dag = \<lparr>check_cycle = True, multigraph = False,
                        slots = [Some None, Some None], edges = [(1, 0)]\<rparr>,
                 roots = {1}\<rparr>
      in has_node (dag g0) 0 \<and> has_node (dag g0) 1 \<and> reaches (dag g0) 1 0
         \<and> add_edge X g0 (Id 0) (Id 1) = (Inl TypeError, g0))"
proof -
  have "(Suc 0, 0) \<in> {(Suc 0, 0::nat)}\<^sup>+"
    by (rule r_into_trancl) simp
  then show ?thesis
    by (simp add: add_edge_raises has_node_def reaches_def Let_def)
qed

subsection \<open>Traversal\<close>

text \<open>
  Line 142 gives the visitor's constructor two arguments, and the constructor takes one:
  every traversal ends in a TypeError before the search starts and before anything is
  yielded. The caller's visit table comes back as it went in, from \<^verbatim>\<open>traverse\<close> and
  also from the part of it that follows the constructor, whatever the search does.
\<close>

lemma GraphDFSVistor_new_two: "GraphDFSVistor_new [a, b] = Inl TypeError"
  by (simp add: GraphDFSVistor_new_def)

lemma traverse_raises: "traverse X g ord attrs tab = ([], Some TypeError, tab)"
  by (simp add: traverse_def GraphDFSVistor_new_two)

lemma traverse_body_table: "snd (snd (traverse_body X g v attrs tab)) = tab"
  by (simp add: traverse_body_def Let_def split: sum.splits prod.splits)

lemma single_node_graph: "snd (add_node X (Graph_init :: 'f Graph) fr) = Graph_init"
  by (simp add: add_node_raises)

text \<open>
  Claim C9. For an order other than \<^verbatim>\<open>"pre"\<close> and \<^verbatim>\<open>"post"\<close>, \<^verbatim>\<open>traverse(order)\<close>
  fails with a ValueError before a vertex is produced. The code at the order
  \<^verbatim>\<open>"bfs"\<close>: the constructor's body would raise the ValueError, the constructor call of
  line 142 raises a TypeError before the body runs, and the traversal yields nothing and
  ends in that TypeError; it does so for every order.
\<close>

theorem traverse_unknown_order_raises_type_error:
  "GraphDFSVistor_init (PStr ''bfs'') = Inl ValueError
   \<and> GraphDFSVistor_new [PStr ''bfs'', attrs] = Inl TypeError
   \<and> traverse X g (PStr ''bfs'') attrs tab = ([], Some TypeError, tab)
   \<and> traverse X g ord attrs tab = ([], Some TypeError, tab)"
  by (simp add: traverse_raises GraphDFSVistor_new_two GraphDFSVistor_init_def)

text \<open>
  Claim C3. \<^verbatim>\<open>is_tree()\<close> is true exactly when \<open>roots\<close> has one member and the
  traversal discovered every vertex once, and false when \<open>roots\<close> is empty. The code
  returns False for more than one root and raises the traversal's TypeError otherwise: on
  the empty graph, where the claim says False, and after \<^verbatim>\<open>add_node\<close>.
\<close>

theorem is_tree_never_true:
  "is_tree X g = (if card (roots g) > 1 then Inr False else Inl TypeError)
   \<and> is_tree X Graph_init = Inl TypeError
   \<and> is_tree X (snd (add_node X Graph_init fr)) = Inl TypeError"
proof -
  have gen: "is_tree X h = (if card (roots h) > 1 then Inr False else Inl TypeError)"
    for h :: "'a Graph"
    by (simp add: is_tree_def traverse_raises)
  show ?thesis
    by (simp add: gen single_node_graph fresh_roots)
qed

text \<open>
  Claim C8. After a traversal is drained, a table passed as \<open>visited\<close> holds the number
  of discoveries of every vertex reachable from the roots. The code never writes the
  caller's table: a table passed empty is still empty after the traversal.
\<close>

theorem traverse_leaves_visited_table:
  "snd (snd (traverse X g ord attrs tab)) = tab
   \<and> snd (snd (traverse_body X g v attrs tab)) = tab
   \<and> traverse X (snd (add_node X Graph_init fr)) (PStr ''pre'') PNone (Some [])
       = ([], Some TypeError, Some [])"
  by (simp add: traverse_raises traverse_body_table)

subsection \<open>Merge detection and normalize\<close>

lemma find_child_merges_ints:
  "find_child_merges idf st (map PInt rs) = (if rs = [] then Inr st else Inl AttributeError)"
  by (cases rs) (simp_all add: find_child_merges_def)

lemma find_merges_raises:
  "find_merges X g =
     Inl (if sorted_list_of_set (roots g) = [] then TypeError else AttributeError)"
  by (simp add: find_merges_def find_child_merges_ints traverse_raises)

lemma normalize_raises:
  "normalize X g =
     (Inl (if sorted_list_of_set (roots g) = [] then TypeError else AttributeError), g)"
  by (simp add: normalize_def find_merges_raises)

text \<open>
  Claim C4. Running \<^verbatim>\<open>normalize()\<close> twice gives an empty merge mapping the second time.
  The code never returns a mapping: \<^verbatim>\<open>find_merges\<close> gives \<^verbatim>\<open>index_by\<close> the root ids
  (ints, which have no frame: AttributeError) and, when there are none, runs into the
  traversal's TypeError; the graph is left as it was, so the second run ends the same
  way. On the fresh graph, and after \<^verbatim>\<open>add_node\<close>, the error is the TypeError.
\<close>

theorem normalize_never_returns:
  "normalize X g =
     (Inl (if sorted_list_of_set (roots g) = [] then TypeError else AttributeError), g)
   \<and> fst (normalize X (snd (normalize X g))) \<noteq> Inr []
   \<and> normalize X Graph_init = (Inl TypeError, Graph_init)
   \<and> fst (normalize X (snd (add_node X Graph_init fr))) = Inl TypeError"
  by (simp add: normalize_raises single_node_graph fresh_roots)

text \<open>
  Claim C5. In \<^verbatim>\<open>find_merges\<close> the representative of a partition with at least two
  members is picked by a total, reproducible order over vertices, so that two runs on the
  same graph state give the same merge mapping. The code never gets to pick and never
  returns a mapping: \<^verbatim>\<open>find_merges\<close> raises on every graph (line 191 on the root ids,
  line 192 in the traversal), whatever \<^verbatim>\<open>id\<close> is.
\<close>

theorem find_merges_never_returns_mapping:
  "find_merges X g =
     Inl (if sorted_list_of_set (roots g) = [] then TypeError else AttributeError)
   \<and> find_merges X Graph_init = Inl TypeError
   \<and> find_merges (X\<lparr>id_of_node := idf\<rparr>) g = find_merges X g"
  by (simp add: find_merges_raises fresh_roots)

subsection \<open>Copy\<close>

lemma Node_copy_raises: "Node_copy X n = Inl TypeError"
  by (simp add: Node_copy_def Node_new_kw_def Node_params_def)

lemma copy_step_raises: "\<exists>e. copy_step X d idx st = Inl e"
  by (cases idx; cases st)
     (auto simp: copy_step_def Node_copy_raises split: sum.splits option.splits)

lemma copy_loop_nonempty: "idxs \<noteq> [] \<Longrightarrow> \<exists>e. copy_loop X d idxs st = (Some e, st)"
  using copy_step_raises[of X d "hd idxs" st] by (cases idxs) auto

lemma enumerate_traverse_raises: "Graph_enumerate_traverse g = Inl AttributeError"
  by (simp add: Graph_enumerate_traverse_def Graph_names_def)

lemma copy_raises: "\<exists>e. fst (copy X g m) = Inl e"
proof (cases "zip (rx_node_indices (dag g)) (rx_node_indices (rx_copy (dag g))) = []")
  case True
  have "copy_loop X (dag g) (zip (rx_node_indices (dag g)) (rx_node_indices (rx_copy (dag g)))) st
          = (None, st)" for st
    unfolding True by simp
  then show ?thesis
    by (simp add: copy_def Let_def enumerate_traverse_raises split: sum.splits)
next
  case False
  from copy_loop_nonempty[OF this]
  obtain e where "copy_loop X (dag g)
      (zip (rx_node_indices (dag g)) (rx_node_indices (rx_copy (dag g))))
      (rx_copy (dag g), case m of None \<Rightarrow> [] | Some m \<Rightarrow> m)
      = (Some e, rx_copy (dag g), case m of None \<Rightarrow> [] | Some m \<Rightarrow> m)"
    by blast
  then show ?thesis
    by (simp add: copy_def Let_def)
qed

text \<open>
  Claim C7. \<^verbatim>\<open>copy()\<close> returns a graph with as many vertices, edges and roots as the
  original, and a bijective old-to-new mapping. The code returns nothing: on the empty
  graph, line 252 calls \<^verbatim>\<open>enumerate_traverse\<close>, which the class does not define
  (AttributeError), and for a vertex in the storage \<^verbatim>\<open>Node.copy\<close> calls the
  constructor with the keyword \<^verbatim>\<open>frame_obj\<close>, which it does not have (TypeError).
\<close>

theorem copy_never_returns:
  "(\<exists>e. fst (copy X g m) = Inl e)
   \<and> fst (copy X Graph_init None) = Inl AttributeError
   \<and> fst (copy X (snd (add_node X Graph_init fr)) None) = Inl AttributeError
   \<and> Node_copy X n = Inl TypeError"
proof -
  have a: "fst (copy X (Graph_init :: 'a Graph) None) = Inl AttributeError"
    by (simp add: copy_def Graph_init_def PyDiGraph_init_def rx_copy_def rx_node_indices_def
        translate_roots_def enumerate_traverse_raises)
  show ?thesis
    using copy_raises[of X g m] a by (simp add: single_node_graph Node_copy_raises)
qed

subsection \<open>The representative of a group of duplicates\<close>

text \<open>
  What \<^verbatim>\<open>_find_child_merges\<close> (lines 175 to 189) computes when it is given a list of
  Nodes, which \<^verbatim>\<open>find_merges\<close> as written never does: a lookup after an assignment, the
  keys one group touches, and the groups \<^verbatim>\<open>index_by\<close> forms.
\<close>

lemma dict_get_set:
  "dict_get (dict_set d k v) k' =
     (if hatchet_nid k = hatchet_nid k' then Some v else dict_get d k')"
  by (induction d) (auto simp: dict_key_match)

lemma fst_child_merge:
  "fst (child_merge idf m c st) =
     dict_set (fst st) c
       (min_from idf m [case dict_get (fst st) c of None \<Rightarrow> m | Some p \<Rightarrow> p])"
  by (cases st) (simp add: child_merge_def Let_def)

lemma fold_child_merge_frame:
  "hatchet_nid k \<notin> hatchet_nid ` set cs \<Longrightarrow>
     dict_get (fst (fold (child_merge idf m) cs st)) k = dict_get (fst st) k"
proof (induction cs arbitrary: st)
  case Nil
  then show ?case by simp
next
  case (Cons c cs)
  then have "dict_get (fst (fold (child_merge idf m) cs (child_merge idf m c st))) k
               = dict_get (fst (child_merge idf m c st)) k"
    by simp
  also have "\<dots> = dict_get (fst st) k"
    using Cons.prems by (auto simp: fst_child_merge dict_get_set)
  finally show ?case by simp
qed

lemma fold_child_merge_get:
  assumes "\<forall>c \<in> set cs. dict_get (fst st) c = None \<or> dict_get (fst st) c = Some m"
  shows "dict_get (fst (fold (child_merge idf m) cs st)) k =
           (if hatchet_nid k \<in> hatchet_nid ` set cs then Some m else dict_get (fst st) k)"
  using assms
proof (induction cs arbitrary: st)
  case Nil
  then show ?case by simp
next
  case (Cons c cs)
  let ?st1 = "child_merge idf m c st"
  have prev: "(case dict_get (fst st) c of None \<Rightarrow> m | Some p \<Rightarrow> p) = m"
    using Cons.prems by (auto split: option.splits)
  have st1: "fst ?st1 = dict_set (fst st) c m"
    by (simp add: fst_child_merge prev)
  have pre: "\<forall>c' \<in> set cs. dict_get (fst ?st1) c' = None \<or> dict_get (fst ?st1) c' = Some m"
    using Cons.prems by (simp add: st1 dict_get_set)
  have "dict_get (fst (fold (child_merge idf m) cs ?st1)) k =
          (if hatchet_nid k \<in> hatchet_nid ` set cs then Some m else dict_get (fst ?st1) k)"
    by (rule Cons.IH[OF pre])
  then show ?case
    by (auto simp: st1 dict_get_set)
qed

lemma group_merge_frame:
  "hatchet_nid k \<notin> hatchet_nid ` set (snd grp) \<Longrightarrow>
     dict_get (fst (group_merge idf grp st)) k = dict_get (fst st) k"
  by (cases grp) (simp add: group_merge_def Let_def fold_child_merge_frame)

lemma group_merge_get:
  assumes "\<forall>c \<in> set cs. dict_get (fst st) c = None"
  shows "dict_get (fst (group_merge idf (fr, cs) st)) k =
           (if 1 < length cs \<and> hatchet_nid k \<in> hatchet_nid ` set cs
            then Some (min_from idf (hd cs) (tl cs)) else dict_get (fst st) k)"
  using assms by (simp add: group_merge_def Let_def fold_child_merge_get)

lemma fold_group_merge_frame:
  "\<forall>grp \<in> set gs. hatchet_nid k \<notin> hatchet_nid ` set (snd grp) \<Longrightarrow>
     dict_get (fst (fold (group_merge idf) gs st)) k = dict_get (fst st) k"
  by (induction gs arbitrary: st) (simp_all add: group_merge_frame)

lemma fold_group_merge_get:
  assumes "distinct (map fst gs)"
    and "\<forall>grp \<in> set gs. \<forall>c \<in> set (snd grp). frame c = fst grp"
    and "inj_on hatchet_nid (\<Union>grp \<in> set gs. set (snd grp))"
    and "\<forall>grp \<in> set gs. \<forall>c \<in> set (snd grp). dict_get (fst st) c = None"
    and "(fr, cs) \<in> set gs" and "1 < length cs" and "c \<in> set cs"
  shows "dict_get (fst (fold (group_merge idf) gs st)) c = Some (min_from idf (hd cs) (tl cs))"
  using assms
proof (induction gs arbitrary: st)
  case Nil
  then show ?case by simp
next
  case (Cons g gs)
  obtain f0 cs0 where g: "g = (f0, cs0)" by (cases g)
  let ?st1 = "group_merge idf g st"
  have other: "hatchet_nid x \<notin> hatchet_nid ` set (snd grp)"
    if "x \<in> set cs0" and "grp \<in> set gs" for x grp
  proof
    assume "hatchet_nid x \<in> hatchet_nid ` set (snd grp)"
    then obtain y where y: "y \<in> set (snd grp)" "hatchet_nid x = hatchet_nid y" by auto
    have "x \<in> (\<Union>grp \<in> set (g # gs). set (snd grp))" using that(1) g by auto
    moreover have "y \<in> (\<Union>grp \<in> set (g # gs). set (snd grp))" using y(1) that(2) by auto
    ultimately have "x = y" using Cons.prems(3) y(2) by (auto dest: inj_onD)
    moreover have "frame x = f0" using Cons.prems(2) that(1) g by auto
    moreover have "frame y = fst grp" using Cons.prems(2) y(1) that(2) by auto
    ultimately have "f0 = fst grp" by simp
    then have "f0 \<in> set (map fst gs)" using that(2) by auto
    then show False using Cons.prems(1) g by simp
  qed
  have fresh0: "\<forall>c \<in> set cs0. dict_get (fst st) c = None"
    using Cons.prems(4) g by auto
  show ?case
  proof (cases "(fr, cs) = g")
    case True
    then have eq: "cs0 = cs" "f0 = fr" using g by auto
    have "dict_get (fst ?st1) c = Some (min_from idf (hd cs) (tl cs))"
      using group_merge_get[OF fresh0, of idf f0 c] Cons.prems(6,7) eq g by auto
    moreover have "dict_get (fst (fold (group_merge idf) gs ?st1)) c = dict_get (fst ?st1) c"
      by (rule fold_group_merge_frame) (use other Cons.prems(7) eq in blast)
    ultimately show ?thesis by simp
  next
    case False
    then have mem: "(fr, cs) \<in> set gs" using Cons.prems(5) by auto
    have fresh1: "\<forall>grp \<in> set gs. \<forall>c \<in> set (snd grp). dict_get (fst ?st1) c = None"
    proof (intro ballI)
      fix grp x assume grp: "grp \<in> set gs" and x: "x \<in> set (snd grp)"
      have "hatchet_nid x \<notin> hatchet_nid ` set cs0"
      proof
        assume "hatchet_nid x \<in> hatchet_nid ` set cs0"
        then obtain y where "y \<in> set cs0" "hatchet_nid y = hatchet_nid x" by auto
        with other[OF this(1) grp] x show False by (metis imageI)
      qed
      then have "dict_get (fst ?st1) x = dict_get (fst st) x"
        using group_merge_frame[of x g idf st] g by simp
      then show "dict_get (fst ?st1) x = None"
        using Cons.prems(4) grp x by auto
    qed
    have d: "distinct (map fst gs)" using Cons.prems(1) by simp
    have b: "\<forall>grp \<in> set gs. \<forall>c \<in> set (snd grp). frame c = fst grp"
      using Cons.prems(2) by simp
    have i: "inj_on hatchet_nid (\<Union>grp \<in> set gs. set (snd grp))"
      using Cons.prems(3) by (rule inj_on_subset) auto
    have "dict_get (fst (fold (group_merge idf) gs ?st1)) c = Some (min_from idf (hd cs) (tl cs))"
      by (rule Cons.IH[OF d b i fresh1 mem Cons.prems(6,7)])
    then show ?thesis by simp
  qed
qed

lemma index_by_frame_nodes:
  "index_by_frame idx (map PNode ns) = Inr (fold (\<lambda>n i. index_add i (frame n) n) ns idx)"
  by (induction ns arbitrary: idx) simp_all

lemma map_fst_index_add:
  "map fst (index_add idx f x) =
     (if f \<in> fst ` set idx then map fst idx else map fst idx @ [f])"
  by (induction idx) force+

lemma distinct_index_add:
  "distinct (map fst idx) \<Longrightarrow> distinct (map fst (index_add idx f x))"
  by (simp add: map_fst_index_add)

lemma map_of_index_add:
  "map_of (index_add idx f x) f' =
     (if f' = f then Some ((case map_of idx f of None \<Rightarrow> [] | Some xs \<Rightarrow> xs) @ [x])
      else map_of idx f')"
  by (induction idx) auto

lemma distinct_index_fold:
  "distinct (map fst idx) \<Longrightarrow>
     distinct (map fst (fold (\<lambda>n i. index_add i (frame n) n) ns idx))"
  by (induction ns arbitrary: idx) (simp_all add: distinct_index_add)

lemma map_of_index_fold:
  "map_of (fold (\<lambda>n i. index_add i (frame n) n) ns idx) f =
     (if map_of idx f = None \<and> filter (\<lambda>m. frame m = f) ns = [] then None
      else Some ((case map_of idx f of None \<Rightarrow> [] | Some xs \<Rightarrow> xs)
                 @ filter (\<lambda>m. frame m = f) ns))"
proof (induction ns arbitrary: idx)
  case Nil
  then show ?case by (simp split: option.splits)
next
  case (Cons n ns)
  show ?case
    by (simp add: Cons.IH map_of_index_add split: option.splits)
qed

lemma index_groups:
  assumes "(f, cs) \<in> set (fold (\<lambda>n i. index_add i (frame n) n) ns [])"
  shows "cs = filter (\<lambda>m. frame m = f) ns"
proof -
  have "distinct (map fst (fold (\<lambda>n i. index_add i (frame n) n) ns []))"
    by (rule distinct_index_fold) simp
  then have "map_of (fold (\<lambda>n i. index_add i (frame n) n) ns []) f = Some cs"
    using assms by simp
  then show ?thesis
    by (simp add: map_of_index_fold split: if_splits)
qed

lemma index_member:
  assumes "n \<in> set ns"
  shows "(frame n, filter (\<lambda>m. frame m = frame n) ns)
           \<in> set (fold (\<lambda>n i. index_add i (frame n) n) ns [])"
proof -
  have "filter (\<lambda>m. frame m = frame n) ns \<noteq> []"
    using assms by (auto simp: filter_empty_conv)
  then have "map_of (fold (\<lambda>n i. index_add i (frame n) n) ns []) (frame n)
               = Some (filter (\<lambda>m. frame m = frame n) ns)"
    by (simp add: map_of_index_fold)
  then show ?thesis by (rule map_of_SomeD)
qed

lemma min_from_mem: "min_from key m xs \<in> set (m # xs)"
  by (induction xs arbitrary: m) auto

lemma min_from_le_start: "key (min_from key m xs) \<le> key m"
proof (induction xs arbitrary: m)
  case Nil
  then show ?case by simp
next
  case (Cons y ys)
  have "key (min_from key (if key y < key m then y else m) ys)
          \<le> key (if key y < key m then y else m)"
    by (rule Cons.IH)
  also have "\<dots> \<le> key m" by simp
  finally show ?case by simp
qed

lemma min_from_le_rest: "x \<in> set xs \<Longrightarrow> key (min_from key m xs) \<le> key x"
proof (induction xs arbitrary: m)
  case Nil
  then show ?case by simp
next
  case (Cons y ys)
  show ?case
  proof (cases "x = y")
    case True
    have "key (min_from key (if key y < key m then y else m) ys)
            \<le> key (if key y < key m then y else m)"
      by (rule min_from_le_start)
    also have "\<dots> \<le> key y" by simp
    finally show ?thesis using True by simp
  next
    case False
    then have "x \<in> set ys" using Cons.prems by simp
    then show ?thesis using Cons.IH by simp
  qed
qed

lemma min_from_le: "x \<in> set (m # xs) \<Longrightarrow> key (min_from key m xs) \<le> key x"
  using min_from_le_start[of key m xs] min_from_le_rest[of x xs key m] by auto

text \<open>
  On the two Nodes of ids 0 and 1 with equal frames: when the identities \<^verbatim>\<open>id\<close> grow
  with the ids the representative is vertex 0, and when they fall it is vertex 1.
\<close>

theorem representative_follows_identity_not_id:
  "(let a = Node_init ''main'' 0 (- 1); b = Node_init ''main'' 1 (- 1) in
      find_child_merges hatchet_nid ([], []) [PNode a, PNode b]
        = Inr ([(a, a), (b, a)], [(a, [a, b])])
      \<and> find_child_merges (\<lambda>n. - hatchet_nid n) ([], []) [PNode a, PNode b]
        = Inr ([(a, b), (b, b)], [(b, [a, b])])
      \<and> find_child_merges hatchet_nid ([], []) [PNode a, PNode b]
        \<noteq> find_child_merges (\<lambda>n. - hatchet_nid n) ([], []) [PNode a, PNode b])"
  by (simp add: find_child_merges_def group_merge_def child_merge_def dd_append_def
      dd_read_def Node_init_def Node_hash_def Node_dunder_hash_def Node_eq_def Let_def)

text \<open>
  Let the candidates be Nodes, one per vertex id, none with an entry in \<open>merges\<close> yet.
  Then \<^verbatim>\<open>_find_child_merges\<close> returns, and every candidate whose frame at least two
  candidates carry is mapped to a candidate of the same frame whose identity \<^verbatim>\<open>id\<close> is
  least among them: the first such one in the order of the list.
\<close>

theorem find_child_merges_least_identity:
  assumes "inj_on hatchet_nid (set ns)"
    and "\<forall>c \<in> set ns. dict_get merges0 c = None"
    and "n \<in> set ns"
    and "1 < length (filter (\<lambda>m. frame m = frame n) ns)"
  shows "\<exists>merges inverted r.
           find_child_merges idf (merges0, inverted0) (map PNode ns) = Inr (merges, inverted)
           \<and> dict_get merges n = Some r
           \<and> r = min_from idf (hd (filter (\<lambda>m. frame m = frame n) ns))
                              (tl (filter (\<lambda>m. frame m = frame n) ns))
           \<and> r \<in> set ns \<and> frame r = frame n
           \<and> (\<forall>m \<in> set ns. frame m = frame n \<longrightarrow> idf r \<le> idf m)"
proof -
  let ?idx = "fold (\<lambda>n i. index_add i (frame n) n) ns []"
  let ?cs = "filter (\<lambda>m. frame m = frame n) ns"
  let ?r = "min_from idf (hd ?cs) (tl ?cs)"
  let ?st = "fold (group_merge idf) ?idx (merges0, inverted0)"
  have run: "find_child_merges idf (merges0, inverted0) (map PNode ns) = Inr ?st"
    by (simp add: find_child_merges_def index_by_frame_nodes)
  have d: "distinct (map fst ?idx)"
    by (rule distinct_index_fold) simp
  have grp: "snd g = filter (\<lambda>m. frame m = fst g) ns" if "g \<in> set ?idx" for g
    using index_groups[of "fst g" "snd g" ns] that by simp
  have b: "\<forall>g \<in> set ?idx. \<forall>c \<in> set (snd g). frame c = fst g"
    using grp by auto
  have sub: "(\<Union>g \<in> set ?idx. set (snd g)) \<subseteq> set ns"
    using grp by auto
  have i: "inj_on hatchet_nid (\<Union>g \<in> set ?idx. set (snd g))"
    using assms(1) sub by (rule inj_on_subset)
  have fresh: "\<forall>g \<in> set ?idx. \<forall>c \<in> set (snd g). dict_get (fst (merges0, inverted0)) c = None"
    using assms(2) sub by auto
  have mem: "(frame n, ?cs) \<in> set ?idx"
    using assms(3) by (rule index_member)
  have ncs: "n \<in> set ?cs" using assms(3) by simp
  have get: "dict_get (fst ?st) n = Some ?r"
    by (rule fold_group_merge_get[OF d b i fresh mem assms(4) ncs])
  have ne: "?cs \<noteq> []" using assms(4) by auto
  then have cs: "hd ?cs # tl ?cs = ?cs" by simp
  have rin: "?r \<in> set ?cs"
    using min_from_mem[of idf "hd ?cs" "tl ?cs"] cs by simp
  have least: "idf ?r \<le> idf m" if "m \<in> set ?cs" for m
    using min_from_le[of m "hd ?cs" "tl ?cs" idf] that cs by simp
  have "find_child_merges idf (merges0, inverted0) (map PNode ns) = Inr (fst ?st, snd ?st)"
    using run by simp
  moreover have "?r \<in> set ns" "frame ?r = frame n" using rin by auto
  moreover have "\<forall>m \<in> set ns. frame m = frame n \<longrightarrow> idf ?r \<le> idf m"
    using least by simp
  ultimately show ?thesis using get by blast
qed

theorem find_child_merges_least_identity_witness:
  "inj_on hatchet_nid (set [Node_init ''main'' 0 (- 1), Node_init ''main'' 1 (- 1)])
   \<and> Node_init ''main'' 0 (- 1) \<in> set [Node_init ''main'' 0 (- 1), Node_init ''main'' 1 (- 1)]
   \<and> 1 < length (filter (\<lambda>m. frame m = frame (Node_init ''main'' 0 (- 1)))
                   [Node_init ''main'' 0 (- 1), Node_init ''main'' 1 (- 1)])
   \<and> (\<exists>merges inverted.
        find_child_merges (\<lambda>n. - hatchet_nid n) ([], [])
            (map PNode [Node_init ''main'' 0 (- 1), Node_init ''main'' 1 (- 1)])
          = Inr (merges, inverted)
        \<and> dict_get merges (Node_init ''main'' 0 (- 1)) = Some (Node_init ''main'' 1 (- 1)))"
proof -
  let ?a = "Node_init ''main'' 0 (- 1)" and ?b = "Node_init ''main'' 1 (- 1)"
  have h1: "inj_on hatchet_nid (set [?a, ?b])"
    by (simp add: Node_init_def)
  have h2: "\<forall>c \<in> set [?a, ?b]. dict_get ([] :: (string Node \<times> string Node) list) c = None"
    by simp
  have h3: "?a \<in> set [?a, ?b]" by simp
  have h4: "1 < length (filter (\<lambda>m. frame m = frame ?a) [?a, ?b])"
    by (simp add: Node_init_def)
  have r: "min_from (\<lambda>n. - hatchet_nid n)
             (hd (filter (\<lambda>m. frame m = frame ?a) [?a, ?b]))
             (tl (filter (\<lambda>m. frame m = frame ?a) [?a, ?b])) = ?b"
    by (simp add: Node_init_def)
  from find_child_merges_least_identity[OF h1 h2 h3 h4, of "\<lambda>n. - hatchet_nid n" "[]"]
  have "\<exists>merges inverted.
        find_child_merges (\<lambda>n. - hatchet_nid n) ([], []) (map PNode [?a, ?b])
          = Inr (merges, inverted)
        \<and> dict_get merges ?a = Some ?b"
    unfolding r by blast
  with h1 h3 h4 show ?thesis by blast
qed

end
